theory Spec2Isabelle
  imports Main "HOL-Library.Char_ord" "HOL-Library.List_Lexorder" "HOL-Library.Multiset"
begin

section \<open>Python values\<close>

text \<open>
  The library is Python 2 code (\<^verbatim>\<open>__metaclass__\<close>, \<^verbatim>\<open>print k\<close> in the doctests).
  Keys, labels, sort values and defaults are dynamically typed. The model covers the
  scalars \<^verbatim>\<open>None\<close>, \<^verbatim>\<open>int\<close>/\<^verbatim>\<open>long\<close> and \<^verbatim>\<open>str\<close>; on these Python's \<^verbatim>\<open>==\<close> is
  structural equality and all three are hashable. A bool acts in a dict as the int it
  equals and is not a value of its own; the object \<^verbatim>\<open>False\<close>, by which
  \<^verbatim>\<open>Enum.verbose\<close> recognises a call without a key, appears as a key argument of that
  method only. Floats, \<^verbatim>\<open>unicode\<close> strings and nested tuples are not values of the
  model.
\<close>

datatype pyval = PNone | PInt int | PStr string

text \<open>Truthiness, as \<^verbatim>\<open>if x\<close> and \<^verbatim>\<open>x or y\<close> test it.\<close>

fun truthy :: "pyval \<Rightarrow> bool" where
  "truthy PNone = False"
| "truthy (PInt i) = (i \<noteq> 0)"
| "truthy (PStr s) = (s \<noteq> [])"

definition py_or :: "pyval \<Rightarrow> pyval \<Rightarrow> pyval" where
  "py_or a b = (if truthy a then a else b)"

text \<open>
  Python 2 orders values of different types: \<^verbatim>\<open>None\<close> is below everything, numbers are
  below strings, numbers compare by value and byte strings lexicographically by byte.
\<close>

fun py_le :: "pyval \<Rightarrow> pyval \<Rightarrow> bool" where
  "py_le PNone _ = True"
| "py_le (PInt i) PNone = False"
| "py_le (PInt i) (PInt j) = (i \<le> j)"
| "py_le (PInt i) (PStr t) = True"
| "py_le (PStr s) (PStr t) = (s \<le> t)"
| "py_le (PStr s) _ = False"

instantiation pyval :: linorder
begin

definition less_eq_pyval :: "pyval \<Rightarrow> pyval \<Rightarrow> bool" where
  "less_eq_pyval a b = py_le a b"

definition less_pyval :: "pyval \<Rightarrow> pyval \<Rightarrow> bool" where
  "less_pyval a b = (py_le a b \<and> \<not> py_le b a)"

instance
proof
  fix x y z :: pyval
  show "(x < y) = (x \<le> y \<and> \<not> y \<le> x)"
    by (simp add: less_eq_pyval_def less_pyval_def)
  show "x \<le> x"
    by (cases x) (simp_all add: less_eq_pyval_def)
  show "x \<le> y \<Longrightarrow> y \<le> z \<Longrightarrow> x \<le> z"
    by (cases x; cases y; cases z) (simp_all add: less_eq_pyval_def)
  show "x \<le> y \<Longrightarrow> y \<le> x \<Longrightarrow> x = y"
    by (cases x; cases y) (simp_all add: less_eq_pyval_def)
  show "x \<le> y \<or> y \<le> x"
    by (cases x; cases y) (auto simp add: less_eq_pyval_def)
qed

end

text \<open>\<^verbatim>\<open>str(x)\<close>: decimal digits with a leading minus sign for an int.\<close>

definition digit_char :: "nat \<Rightarrow> char" where
  "digit_char n = char_of (48 + n)"

function nat_digits :: "nat \<Rightarrow> string" where
  "nat_digits n = (if n < 10 then [digit_char n] else nat_digits (n div 10) @ [digit_char (n mod 10)])"
  by pat_completeness auto
termination
  by (relation "measure (\<lambda>n. n)") auto

fun py_str :: "pyval \<Rightarrow> string" where
  "py_str PNone = ''None''"
| "py_str (PInt i) = (if i < 0 then CHR ''-'' # nat_digits (nat (- i)) else nat_digits (nat i))"
| "py_str (PStr s) = s"

definition py_len :: "'a list \<Rightarrow> int" where
  "py_len xs = int (length xs)"

section \<open>EnumItem\<close>

text \<open>
  \<^verbatim>\<open>EnumItem.__init__(self, key, value, name=None, sort=None, **metadata)\<close> stores its
  arguments. The \<^verbatim>\<open>metadata\<close> attribute starts as the dict of extra keyword arguments
  and is overwritten with one opaque value by the tuple shorthand of a class body.
  Entries are values here: the assignment \<^verbatim>\<open>item.name = name\<close> of the metaclass is a
  record update on the entry that is stored.
\<close>

datatype pymeta = Kwargs "(string \<times> pyval) list" | Meta pyval

record EnumItem =
  item_key :: pyval
  item_value :: pyval
  item_name :: pyval
  item_sort :: pyval
  item_metadata :: pymeta

definition EnumItem_init :: "pyval \<Rightarrow> pyval \<Rightarrow> pyval \<Rightarrow> pyval \<Rightarrow> (string \<times> pyval) list \<Rightarrow> EnumItem" where
  "EnumItem_init k v n s kwargs =
     \<lparr>item_key = k, item_value = v, item_name = n, item_sort = s, item_metadata = Kwargs kwargs\<rparr>"

text \<open>
  \<^verbatim>\<open>EnumItem\<close> defines neither \<^verbatim>\<open>__nonzero__\<close> nor \<^verbatim>\<open>__len__\<close>, so an instance is
  always true in a condition; it defines neither \<^verbatim>\<open>__eq__\<close>, \<^verbatim>\<open>__ne__\<close> nor
  \<^verbatim>\<open>__cmp__\<close>, so \<^verbatim>\<open>item != s\<close> for a string \<^verbatim>\<open>s\<close> falls back to the default
  comparison, under which an instance never equals a string.
\<close>

definition item_truthy :: "EnumItem \<Rightarrow> bool" where
  "item_truthy item = True"

definition item_ne_str :: "EnumItem \<Rightarrow> string \<Rightarrow> bool" where
  "item_ne_str item s = True"

section \<open>Errors and dictionaries\<close>

text \<open>
  \<^verbatim>\<open>ValueExists found key new\<close> is the \<^verbatim>\<open>Exception('Value already exists. ...')\<close>
  of the metaclass with the arguments of its message: the entry found, the key, and
  the entry (base merge) or attribute name (class body) being added.
\<close>

datatype error =
    ValueExists EnumItem pyval "EnumItem + string"
  | KeyError pyval
  | IndexError
  | AttributeError
  | ValueError
  | TypeError

text \<open>
  A dict is an association list with distinct keys, in the dict's iteration order.
  Python 2 leaves the position of a newly inserted key unspecified; \<open>dict_setitem\<close>
  keeps an existing key in place and puts a new one last.
\<close>

type_synonym ('k, 'v) dict = "('k \<times> 'v) list"

type_synonym item_dict = "(pyval, EnumItem) dict"

definition dict_contains :: "('k, 'v) dict \<Rightarrow> 'k \<Rightarrow> bool" where
  "dict_contains d k = (k \<in> fst ` set d)"

definition dict_get :: "('k, 'v) dict \<Rightarrow> 'k \<Rightarrow> 'v option" where
  "dict_get d k = map_of d k"

fun dict_setitem :: "('k, 'v) dict \<Rightarrow> 'k \<Rightarrow> 'v \<Rightarrow> ('k, 'v) dict" where
  "dict_setitem [] k v = [(k, v)]"
| "dict_setitem ((k', v') # d) k v =
     (if k' = k then (k, v) # d else (k', v') # dict_setitem d k v)"

fun dict_update :: "('k, 'v) dict \<Rightarrow> ('k, 'v) dict \<Rightarrow> ('k, 'v) dict" where
  "dict_update d [] = d"
| "dict_update d ((k, v) # other) = dict_update (dict_setitem d k v) other"

definition keys :: "item_dict \<Rightarrow> pyval list" where
  "keys d = map fst d"

definition dict_values :: "item_dict \<Rightarrow> EnumItem list" where
  "dict_values d = map snd d"

section \<open>MetaEnum.__init__: building the registry\<close>

text \<open>
  A class-body value is a routine, an \<^verbatim>\<open>EnumItem\<close>, a sequence (it has
  \<^verbatim>\<open>__iter__\<close>: a tuple or list of scalars), a scalar, or the dict of the legacy
  \<^verbatim>\<open>enums\<close> attribute.
\<close>

datatype decl = Item EnumItem | Seq "pyval list" | Scalar pyval

datatype attr = Routine | Data decl | Table "(string \<times> attr) list"

fun isroutine :: "attr \<Rightarrow> bool" where
  "isroutine Routine = True"
| "isroutine _ = False"

definition startswith :: "string \<Rightarrow> string \<Rightarrow> bool" where
  "startswith s p = (take (length p) s = p)"

text \<open>
  Lines 12 to 18. For one base that has an \<^verbatim>\<open>_item_dict\<close>: the loop over its items
  raises at the first key already in the accumulator whose entry differs in
  \<^verbatim>\<open>key\<close> or \<^verbatim>\<open>value\<close>; then \<^verbatim>\<open>item_dict.update\<close> stores every entry of the base.
  \<open>nonunique\<close> is \<^verbatim>\<open>issubclass(mcs, NonUniqueEnum)\<close>.
\<close>

fun check_base :: "bool \<Rightarrow> item_dict \<Rightarrow> (pyval \<times> EnumItem) list \<Rightarrow> error option" where
  "check_base nonunique item_dict [] = None"
| "check_base nonunique item_dict ((k, v) # rest) =
     (case (if nonunique then None else dict_get item_dict k) of
        Some found \<Rightarrow>
          if item_key found \<noteq> item_key v \<or> item_value found \<noteq> item_value v
          then Some (ValueExists found k (Inl v))
          else check_base nonunique item_dict rest
      | None \<Rightarrow> check_base nonunique item_dict rest)"

definition merge_base :: "bool \<Rightarrow> item_dict \<Rightarrow> item_dict \<Rightarrow> error + item_dict" where
  "merge_base nonunique item_dict base =
     (case check_base nonunique item_dict base of
        Some e \<Rightarrow> Inl e
      | None \<Rightarrow> Inr (dict_update item_dict base))"

text \<open>A base without the attribute \<^verbatim>\<open>_item_dict\<close> is \<open>None\<close> and is passed over.\<close>

fun merge_bases :: "bool \<Rightarrow> item_dict \<Rightarrow> item_dict option list \<Rightarrow> error + item_dict" where
  "merge_bases nonunique item_dict [] = Inr item_dict"
| "merge_bases nonunique item_dict (None # bases) = merge_bases nonunique item_dict bases"
| "merge_bases nonunique item_dict (Some base # bases) =
     (case merge_base nonunique item_dict base of
        Inl e \<Rightarrow> Inl e
      | Inr item_dict' \<Rightarrow> merge_bases nonunique item_dict' bases)"

text \<open>
  Lines 33 to 42: the three declaration shapes. \<^verbatim>\<open>val[0]\<close> and \<^verbatim>\<open>val[1]\<close> raise
  \<^verbatim>\<open>IndexError\<close> on a sequence that is too short.
\<close>

fun make_item :: "string \<Rightarrow> decl \<Rightarrow> error + EnumItem" where
  "make_item name (Item val) = Inr (val\<lparr>item_name := PStr name\<rparr>)"
| "make_item name (Seq []) = Inl IndexError"
| "make_item name (Seq [v0]) = Inl IndexError"
| "make_item name (Seq (v0 # v1 # rest)) =
     (let item = EnumItem_init v0 v1 PNone v0 [];
          item = (if py_len (v0 # v1 # rest) > 2 then item\<lparr>item_metadata := Meta (hd rest)\<rparr> else item)
      in Inr (item\<lparr>item_name := PStr name\<rparr>))"
| "make_item name (Scalar val) =
     Inr ((EnumItem_init val (PStr name) PNone PNone [])\<lparr>item_name := PStr name\<rparr>)"

text \<open>
  Lines 29 to 47, one pass of the loop over the declared pairs. A dict met as a
  class-body value has \<^verbatim>\<open>__iter__\<close>, and \<^verbatim>\<open>val[0]\<close> looks the key \<^verbatim>\<open>0\<close> up in it,
  which a table keyed by names does not have. \<^verbatim>\<open>setattr(mcs, name, item.key)\<close>
  writes the class attribute and leaves \<^verbatim>\<open>item_dict\<close> alone; it is not modelled.
\<close>

definition skipped :: "bool \<Rightarrow> string \<Rightarrow> attr \<Rightarrow> bool" where
  "skipped underscore_check name val =
     (underscore_check \<and> startswith name ''_'' \<or> isroutine val)"

definition insert_item :: "bool \<Rightarrow> item_dict \<Rightarrow> string \<Rightarrow> EnumItem \<Rightarrow> error + item_dict" where
  "insert_item nonunique item_dict name item =
     (if \<not> nonunique \<and> dict_contains item_dict (item_key item)
         \<and> item_ne_str (the (dict_get item_dict (item_key item))) name
      then Inl (ValueExists (the (dict_get item_dict (item_key item))) (item_key item) (Inr name))
      else Inr (dict_setitem item_dict (item_key item) item))"

fun body_step :: "bool \<Rightarrow> bool \<Rightarrow> item_dict \<Rightarrow> string \<Rightarrow> attr \<Rightarrow> error + item_dict" where
  "body_step nonunique underscore_check item_dict name val =
     (if skipped underscore_check name val then Inr item_dict
      else case val of
        Routine \<Rightarrow> Inr item_dict
      | Table t \<Rightarrow> Inl (KeyError (PInt 0))
      | Data spec \<Rightarrow>
          (case make_item name spec of
             Inl e \<Rightarrow> Inl e
           | Inr item \<Rightarrow> insert_item nonunique item_dict name item))"

fun body_loop :: "bool \<Rightarrow> bool \<Rightarrow> item_dict \<Rightarrow> (string \<times> attr) list \<Rightarrow> error + item_dict" where
  "body_loop nonunique underscore_check item_dict [] = Inr item_dict"
| "body_loop nonunique underscore_check item_dict ((name, val) # enums) =
     (case body_step nonunique underscore_check item_dict name val of
        Inl e \<Rightarrow> Inl e
      | Inr item_dict' \<Rightarrow> body_loop nonunique underscore_check item_dict' enums)"

text \<open>
  The whole of \<^verbatim>\<open>MetaEnum.__init__\<close>: the class name, its bases, its body as the
  items of \<^verbatim>\<open>attrs\<close>. The result is the new class's \<^verbatim>\<open>_item_dict\<close>. An \<^verbatim>\<open>enums\<close>
  attribute that is not a dict has no \<^verbatim>\<open>items\<close>.
\<close>

definition MetaEnum_init ::
  "bool \<Rightarrow> string \<Rightarrow> item_dict option list \<Rightarrow> (string \<times> attr) list \<Rightarrow> error + item_dict" where
  "MetaEnum_init nonunique name bases attrs =
     (case merge_bases nonunique [] bases of
        Inl e \<Rightarrow> Inl e
      | Inr item_dict \<Rightarrow>
          if name = ''Enum'' then body_loop nonunique False item_dict []
          else if dict_contains attrs ''enums'' then
            (case dict_get attrs ''enums'' of
               Some (Table enums) \<Rightarrow> body_loop nonunique False item_dict enums
             | _ \<Rightarrow> Inl AttributeError)
          else body_loop nonunique True item_dict attrs)"

section \<open>The query facade\<close>

text \<open>\<^verbatim>\<open>MetaEnum.__getitem__\<close>: \<^verbatim>\<open>dict.__getitem__\<close> raises \<^verbatim>\<open>KeyError\<close> on a missing key.\<close>

definition getitem :: "item_dict \<Rightarrow> pyval \<Rightarrow> error + pyval" where
  "getitem d key =
     (case dict_get d key of
        None \<Rightarrow> Inl (KeyError key)
      | Some item \<Rightarrow> if item_truthy item then Inr (item_value item) else Inr PNone)"

text \<open>\<^verbatim>\<open>max\<close> of a list raises \<^verbatim>\<open>ValueError\<close> when the list is empty.\<close>

fun py_max :: "int list \<Rightarrow> error + int" where
  "py_max [] = Inl ValueError"
| "py_max (x # xs) = Inr (fold max xs x)"

definition max_length :: "item_dict \<Rightarrow> error + int" where
  "max_length d = py_max (map (\<lambda>x. py_len (py_str x)) (keys d))"

definition lookup :: "item_dict \<Rightarrow> pyval \<Rightarrow> bool \<Rightarrow> error + pyval" where
  "lookup d key get_flag =
     (if get_flag then
        (case dict_get d key of
           Some item \<Rightarrow> if item_truthy item then Inr (item_name item) else Inr key
         | None \<Rightarrow> Inr key)
      else
        (case dict_get d key of
           None \<Rightarrow> Inl (KeyError key)
         | Some item \<Rightarrow> Inr (item_name item)))"

text \<open>
  \<^verbatim>\<open>verbose(key=False, default='')\<close> tests \<^verbatim>\<open>key is False\<close>: the key argument is either
  the object \<^verbatim>\<open>False\<close>, whether left at the default or passed by the caller, or a key.
  For \<^verbatim>\<open>False\<close> the result is the listing, sorted by the stable \<^verbatim>\<open>sorted\<close> on
  \<^verbatim>\<open>x.sort or x.key\<close>; for a key it is one label or the default. \<^verbatim>\<open>get\<close> passes its
  key argument on. (In the dict operations themselves a bool acts as the int it
  equals, so the other methods need no such case.)
\<close>

datatype keyarg = FalseObject | Key pyval

datatype verbose_result = Listing "(pyval \<times> pyval) list" | Label pyval

definition sort_or_key :: "EnumItem \<Rightarrow> pyval" where
  "sort_or_key x = py_or (item_sort x) (item_key x)"

definition verbose :: "item_dict \<Rightarrow> keyarg \<Rightarrow> pyval \<Rightarrow> error + verbose_result" where
  "verbose d key default' =
     (case key of
        FalseObject \<Rightarrow>
          Inr (Listing (map (\<lambda>x. (item_key x, item_value x)) (sort_key sort_or_key (dict_values d))))
      | Key k \<Rightarrow>
          (case dict_get d k of
             Some item \<Rightarrow> if item_truthy item then Inr (Label (item_value item)) else Inr (Label default')
           | None \<Rightarrow> Inr (Label default')))"

definition get :: "item_dict \<Rightarrow> keyarg \<Rightarrow> pyval \<Rightarrow> error + verbose_result" where
  "get d key default' = verbose d key default'"

text \<open>
  \<^verbatim>\<open>reverbose(val, *args)\<close> loops over \<^verbatim>\<open>_item_dict.items()\<close>, so each \<^verbatim>\<open>item\<close> is a
  (key, entry) tuple, and a tuple has no attribute \<^verbatim>\<open>value\<close> or \<^verbatim>\<open>key\<close>.
\<close>

definition tuple_getattr :: "(pyval \<times> EnumItem) \<Rightarrow> string \<Rightarrow> error + pyval" where
  "tuple_getattr t a = Inl AttributeError"

fun reverbose_loop :: "(pyval \<times> EnumItem) list \<Rightarrow> pyval \<Rightarrow> (error + pyval) option" where
  "reverbose_loop [] val = None"
| "reverbose_loop (item # rest) val =
     (case tuple_getattr item ''value'' of
        Inl e \<Rightarrow> Some (Inl e)
      | Inr v \<Rightarrow> if v = val then Some (tuple_getattr item ''key'') else reverbose_loop rest val)"

definition reverbose :: "item_dict \<Rightarrow> pyval \<Rightarrow> pyval list \<Rightarrow> error + pyval" where
  "reverbose d val args =
     (case reverbose_loop d val of
        Some r \<Rightarrow> r
      | None \<Rightarrow> if py_len args > 0 then Inr (hd args) else Inl (KeyError val))"

text \<open>
  \<^verbatim>\<open>metadata(*args)\<close>: without arguments the dict from each entry's \<^verbatim>\<open>key\<close> to its
  metadata; otherwise \<^verbatim>\<open>_item_dict.get(*args)\<close>, which takes a key and at most one
  default, and the metadata of the entry found or else the default (\<^verbatim>\<open>None\<close>).
\<close>

datatype metadata_result = MetaDict "(pyval, pymeta) dict" | MetaOf pymeta

fun metadata_dict :: "EnumItem list \<Rightarrow> (pyval, pymeta) dict \<Rightarrow> (pyval, pymeta) dict" where
  "metadata_dict [] acc = acc"
| "metadata_dict (x # xs) acc = metadata_dict xs (dict_setitem acc (item_key x) (item_metadata x))"

fun metadata :: "item_dict \<Rightarrow> pyval list \<Rightarrow> error + metadata_result" where
  "metadata d [] = Inr (MetaDict (metadata_dict (dict_values d) []))"
| "metadata d [key] =
     (case dict_get d key of Some item \<Rightarrow> Inr (MetaOf (item_metadata item)) | None \<Rightarrow> Inr (MetaOf (Meta PNone)))"
| "metadata d [key, default'] =
     (case dict_get d key of Some item \<Rightarrow> Inr (MetaOf (item_metadata item)) | None \<Rightarrow> Inr (MetaOf (Meta default')))"
| "metadata d (key # default' # extra # others) = Inl TypeError"

text \<open>
  \<^verbatim>\<open>next_available_key\<close>: the keys sorted in descending order; \<^verbatim>\<open>+ 1\<close> on a key that
  is not a number raises \<^verbatim>\<open>TypeError\<close>.
\<close>

fun py_add1 :: "pyval \<Rightarrow> error + pyval" where
  "py_add1 (PInt i) = Inr (PInt (i + 1))"
| "py_add1 _ = Inl TypeError"

definition sorted_reverse :: "pyval list \<Rightarrow> pyval list" where
  "sorted_reverse xs = rev (sort (rev xs))"

definition next_available_key :: "item_dict \<Rightarrow> error + pyval" where
  "next_available_key d =
     (let sorted_keys = sorted_reverse (keys d)
      in if sorted_keys \<noteq> [] then py_add1 (hd sorted_keys) else Inr (PInt 0))"


section \<open>The classes of the doctests\<close>

text \<open>
  The body of \<^verbatim>\<open>TestEnumA\<close> in the docstring of \<^verbatim>\<open>Enum\<close>, and the registry that
  \<^verbatim>\<open>MetaEnum.__init__\<close> builds from it.
\<close>

definition TestEnumA_attrs :: "(string \<times> attr) list" where
  "TestEnumA_attrs =
     [(''A'', Data (Scalar (PInt 1))),
      (''B'', Data (Seq [PInt 2, PStr ''b''])),
      (''C'', Data (Seq [PInt 3, PStr ''c'', PStr ''cmeta''])),
      (''_Z'', Data (Seq [PInt 100, PStr ''z''])),
      (''__module__'', Data (Scalar (PStr ''__main__'')))]"

definition TestEnumA :: item_dict where
  "TestEnumA =
     [(PInt 1, \<lparr>item_key = PInt 1, item_value = PStr ''A'', item_name = PStr ''A'',
                item_sort = PNone, item_metadata = Kwargs []\<rparr>),
      (PInt 2, \<lparr>item_key = PInt 2, item_value = PStr ''b'', item_name = PStr ''B'',
                item_sort = PInt 2, item_metadata = Kwargs []\<rparr>),
      (PInt 3, \<lparr>item_key = PInt 3, item_value = PStr ''c'', item_name = PStr ''C'',
                item_sort = PInt 3, item_metadata = Meta (PStr ''cmeta'')\<rparr>)]"

text \<open>
  Three entries for the key \<^verbatim>\<open>1\<close>: \<^verbatim>\<open>X = (1, 'one')\<close>, \<^verbatim>\<open>Y = (1, 'one')\<close> and
  \<^verbatim>\<open>X = (1, 'uno')\<close>, as the class body builds them.
\<close>

definition one_X :: EnumItem where
  "one_X = \<lparr>item_key = PInt 1, item_value = PStr ''one'', item_name = PStr ''X'',
             item_sort = PInt 1, item_metadata = Kwargs []\<rparr>"

definition one_Y :: EnumItem where
  "one_Y = \<lparr>item_key = PInt 1, item_value = PStr ''one'', item_name = PStr ''Y'',
             item_sort = PInt 1, item_metadata = Kwargs []\<rparr>"

definition uno_X :: EnumItem where
  "uno_X = \<lparr>item_key = PInt 1, item_value = PStr ''uno'', item_name = PStr ''X'',
             item_sort = PInt 1, item_metadata = Kwargs []\<rparr>"






section \<open>Lookups\<close>

lemma map_of_None_keys: "(map_of d k = None) = (k \<notin> set (keys d))"
  by (simp add: keys_def map_of_eq_None_iff)

lemma TestEnumA_built:
  "MetaEnum_init False ''TestEnumA'' [Some []] TestEnumA_attrs = Inr TestEnumA"
  by code_simp

text \<open>
  Claim C5, as the code has it. Indexing the class, \<^verbatim>\<open>Enum[key]\<close>, returns the label
  registered for the key and raises \<^verbatim>\<open>KeyError\<close> exactly when the key is absent.
  \<^verbatim>\<open>get(key, default)\<close> always returns: for a key argument other than the object
  \<^verbatim>\<open>False\<close>, the label when the key is present and the default when it is absent; for
  \<^verbatim>\<open>False\<close>, the sorted listing of the whole registry.
\<close>

theorem getitem_raises_iff_absent_get_returns:
  "getitem d k = (case map_of d k of None \<Rightarrow> Inl (KeyError k) | Some item \<Rightarrow> Inr (item_value item))
   \<and> ((\<exists>e. getitem d k = Inl e) \<longleftrightarrow> k \<notin> set (keys d))
   \<and> get d (Key k) dflt = Inr (Label (case map_of d k of None \<Rightarrow> dflt | Some item \<Rightarrow> item_value item))
   \<and> get d FalseObject dflt
       = Inr (Listing (map (\<lambda>x. (item_key x, item_value x)) (sort_key sort_or_key (dict_values d))))"
proof (cases "map_of d k")
  case None
  then show ?thesis using map_of_None_keys [of d k]
    by (simp add: getitem_def get_def verbose_def dict_get_def)
next
  case (Some item)
  then show ?thesis using map_of_None_keys [of d k]
    by (simp add: getitem_def get_def verbose_def dict_get_def item_truthy_def)
qed

theorem getitem_raises_iff_absent_get_returns_witness:
  "getitem TestEnumA (PInt 3) = Inr (PStr ''c'')
   \<and> getitem TestEnumA (PInt 100) = Inl (KeyError (PInt 100))
   \<and> PInt 100 \<notin> set (keys TestEnumA)
   \<and> get TestEnumA (Key (PInt 100)) (PStr ''Z'') = Inr (Label (PStr ''Z''))
   \<and> get TestEnumA (Key (PInt 3)) PNone = Inr (Label (PStr ''c''))"
  using getitem_raises_iff_absent_get_returns [of TestEnumA "PInt 3" PNone]
    getitem_raises_iff_absent_get_returns [of TestEnumA "PInt 100" "PStr ''Z''"]
  by (simp add: TestEnumA_def keys_def)

text \<open>
  Claim C5 as stated fails for the key argument \<^verbatim>\<open>False\<close>. \<^verbatim>\<open>TestEnumA\<close> has no key
  equal to \<^verbatim>\<open>False\<close>, that is, no key \<^verbatim>\<open>0\<close>: \<^verbatim>\<open>TestEnumA[False]\<close> raises \<^verbatim>\<open>KeyError\<close>,
  and \<^verbatim>\<open>TestEnumA.get(False, 'Z')\<close> returns the listing and not the default \<^verbatim>\<open>'Z'\<close>.
\<close>

theorem get_False_returns_listing:
  "getitem TestEnumA (PInt 0) = Inl (KeyError (PInt 0))
   \<and> get TestEnumA FalseObject (PStr ''Z'')
       = Inr (Listing [(PInt 1, PStr ''A''), (PInt 2, PStr ''b''), (PInt 3, PStr ''c'')])
   \<and> get TestEnumA FalseObject (PStr ''Z'') \<noteq> Inr (Label (PStr ''Z''))"
  by code_simp

text \<open>
  Claim C6. \<^verbatim>\<open>lookup(key)\<close> returns the name registered for the key and raises
  \<^verbatim>\<open>KeyError\<close> when the key is absent; \<^verbatim>\<open>lookup(key, get=True)\<close> returns the name when
  the key is present and the key itself when it is absent.
\<close>

theorem lookup_name_or_keyerror_or_key:
  "lookup d k False = (case map_of d k of None \<Rightarrow> Inl (KeyError k) | Some item \<Rightarrow> Inr (item_name item))
   \<and> lookup d k True = Inr (case map_of d k of None \<Rightarrow> k | Some item \<Rightarrow> item_name item)"
  by (auto simp: lookup_def dict_get_def item_truthy_def split: option.splits)

theorem lookup_name_or_keyerror_or_key_witness:
  "lookup TestEnumA (PInt 3) False = Inr (PStr ''C'')
   \<and> lookup TestEnumA (PInt 100) False = Inl (KeyError (PInt 100))
   \<and> lookup TestEnumA (PInt 3) True = Inr (PStr ''C'')
   \<and> lookup TestEnumA (PInt 100) True = Inr (PInt 100)"
  using lookup_name_or_keyerror_or_key [of TestEnumA "PInt 3"]
    lookup_name_or_keyerror_or_key [of TestEnumA "PInt 100"]
  by (simp add: TestEnumA_def)

section \<open>Keys as numbers and as text\<close>

lemma PInt_le_iff [simp]: "(PInt i \<le> PInt j) = (i \<le> j)"
  by (simp add: less_eq_pyval_def)

lemma sorted_last_Max: "sorted xs \<Longrightarrow> xs \<noteq> [] \<Longrightarrow> last xs = Max (set xs)"
proof (induction xs)
  case Nil
  then show ?case by simp
next
  case (Cons x xs)
  show ?case
  proof (cases "xs = []")
    case True
    then show ?thesis by simp
  next
    case False
    with Cons have "last xs = Max (set xs)" and "\<forall>y\<in>set xs. x \<le> y" by simp_all
    moreover have "Max (set xs) \<in> set xs" using False by simp
    ultimately show ?thesis using False by (simp add: max_absorb2)
  qed
qed

lemma sort_Nil_iff: "(sort xs = []) = (xs = [])"
  by (metis length_0_conv length_sort)

lemma hd_sorted_reverse: "xs \<noteq> [] \<Longrightarrow> hd (sorted_reverse xs) = Max (set xs)"
  using sorted_last_Max [of "sort (rev xs)"]
  by (simp add: sorted_reverse_def hd_rev sort_Nil_iff)

lemma Max_map_PInt:
  assumes "ks \<noteq> []"
  shows "Max (set (map PInt ks)) = PInt (Max (set ks))"
proof -
  have "mono PInt" by (rule monoI) simp
  then have "PInt (Max (set ks)) = Max (PInt ` set ks)"
    using assms by (intro mono_Max_commute) simp_all
  then show ?thesis by simp
qed

text \<open>
  Claim C9. When every key of the registry is a number (here: an int),
  \<^verbatim>\<open>next_available_key()\<close> returns the greatest key plus one, and \<^verbatim>\<open>0\<close> when the
  registry is empty.
\<close>

theorem next_available_key_max_plus_one:
  assumes "keys d = map PInt ks"
  shows "next_available_key d = Inr (PInt (if ks = [] then 0 else Max (set ks) + 1))"
proof (cases "ks = []")
  case True
  then show ?thesis using assms by (simp add: next_available_key_def sorted_reverse_def)
next
  case False
  then have ne: "map PInt ks \<noteq> []" by simp
  have "sorted_reverse (map PInt ks) \<noteq> []"
    using False by (simp add: sorted_reverse_def sort_Nil_iff)
  moreover have "hd (sorted_reverse (map PInt ks)) = PInt (Max (set ks))"
    using hd_sorted_reverse [OF ne] Max_map_PInt [OF False] by simp
  ultimately show ?thesis using assms False by (simp add: next_available_key_def Let_def)
qed

theorem next_available_key_max_plus_one_witness:
  "keys TestEnumA = map PInt [1, 2, 3]
   \<and> next_available_key TestEnumA = Inr (PInt 4)
   \<and> keys [] = map PInt []
   \<and> next_available_key [] = Inr (PInt 0)"
  using next_available_key_max_plus_one [of TestEnumA "[1, 2, 3]"]
    next_available_key_max_plus_one [of "[]" "[]"]
  by (simp add: keys_def TestEnumA_def)

text \<open>
  Claim C10. \<^verbatim>\<open>max_length()\<close> returns the greatest length of \<^verbatim>\<open>str(key)\<close> over the
  registered keys when there is one, and raises (the \<^verbatim>\<open>ValueError\<close> of \<^verbatim>\<open>max\<close> on an
  empty list) when the registry is empty.
\<close>

theorem max_length_max_or_valueerror:
  "max_length d = (if d = [] then Inl ValueError
     else Inr (Max ((\<lambda>k. int (length (py_str k))) ` set (keys d))))"
proof (cases d)
  case Nil
  then show ?thesis by (simp add: max_length_def keys_def)
next
  case (Cons p ps)
  have "fold max (map (\<lambda>x. py_len (py_str x)) (map fst ps)) (py_len (py_str (fst p)))
     = Max (set (py_len (py_str (fst p)) # map (\<lambda>x. py_len (py_str x)) (map fst ps)))"
    by (rule Max.set_eq_fold [symmetric])
  then show ?thesis using Cons
    by (simp add: max_length_def keys_def py_len_def image_image)
qed

section \<open>Re-declaring a key in a class body\<close>

text \<open>
  On line 45 the entry found under the key is compared with the attribute name, an
  \<^verbatim>\<open>EnumItem\<close> with a string, so the comparison never finds them equal: without
  \<^verbatim>\<open>NonUniqueEnum\<close> a class body cannot bind a key that is already in the registry,
  whatever the name.
\<close>

lemma insert_item_raises_iff_key_present:
  "(\<exists>e. insert_item False d name item = Inl e) \<longleftrightarrow> item_key item \<in> set (keys d)"
  by (simp add: insert_item_def dict_contains_def item_ne_str_def keys_def)

text \<open>
  Claim C2 says that re-declaring a key under the name it is already bound to does
  not raise. Here \<^verbatim>\<open>class TestEnumB(TestEnumA): A = 1\<close> declares key \<^verbatim>\<open>1\<close> again
  under its name \<^verbatim>\<open>A\<close>, and the construction raises.
\<close>

theorem redeclare_same_name_raises:
  "MetaEnum_init False ''TestEnumA'' [Some []] TestEnumA_attrs = Inr TestEnumA
   \<and> MetaEnum_init False ''TestEnumB'' [Some TestEnumA] [(''A'', Data (Scalar (PInt 1)))]
     = Inl (ValueExists
             \<lparr>item_key = PInt 1, item_value = PStr ''A'', item_name = PStr ''A'',
                item_sort = PNone, item_metadata = Kwargs []\<rparr>
             (PInt 1) (Inr ''A''))"
  by code_simp

section \<open>Reverse lookup by label\<close>

lemma reverbose_nonempty_raises: "d \<noteq> [] \<Longrightarrow> reverbose d val args = Inl AttributeError"
  by (cases d) (simp_all add: reverbose_def tuple_getattr_def)

lemma reverbose_empty:
  "reverbose [] val args = (if args = [] then Inl (KeyError val) else Inr (hd args))"
  by (simp add: reverbose_def py_len_def)

text \<open>
  Claim C4 says that \<^verbatim>\<open>reverbose(verbose(k)) == k\<close> for a key of the registry. In
  \<^verbatim>\<open>TestEnumA\<close> the label of key \<^verbatim>\<open>3\<close> is \<^verbatim>\<open>'c'\<close>, and \<^verbatim>\<open>reverbose('c')\<close> raises
  \<^verbatim>\<open>AttributeError\<close>, with or without a default.
\<close>

theorem reverbose_of_label_raises:
  "getitem TestEnumA (PInt 3) = Inr (PStr ''c'')
   \<and> reverbose TestEnumA (PStr ''c'') [] = Inl AttributeError
   \<and> reverbose TestEnumA (PStr ''c'') [PInt 3] = Inl AttributeError"
  by code_simp

section \<open>Metadata of the declaration shapes\<close>

lemma make_item_metadata:
  "make_item name (Scalar v) = Inr item \<Longrightarrow> item_metadata item = Kwargs []"
  "make_item name (Seq [k, l]) = Inr item \<Longrightarrow> item_metadata item = Kwargs []"
  "make_item name (Seq (k # l # m # rest)) = Inr item \<Longrightarrow> item_metadata item = Meta m"
  by (auto simp: EnumItem_init_def py_len_def)

text \<open>
  Claim C7 says that \<^verbatim>\<open>metadata(k)\<close> is \<^verbatim>\<open>None\<close> for a key declared as a bare scalar
  or a 2-tuple, as the doctest on line 92 expects. In \<^verbatim>\<open>TestEnumA\<close>, \<^verbatim>\<open>A = 1\<close>
  and \<^verbatim>\<open>B = (2, u'b')\<close> are such keys, and \<^verbatim>\<open>metadata\<close> returns the empty dict of
  keyword arguments for both.
\<close>

theorem metadata_of_scalar_is_empty_dict:
  "MetaEnum_init False ''TestEnumA'' [Some []] TestEnumA_attrs = Inr TestEnumA
   \<and> metadata TestEnumA [PInt 1] = Inr (MetaOf (Kwargs []))
   \<and> metadata TestEnumA [PInt 2] = Inr (MetaOf (Kwargs []))
   \<and> MetaOf (Kwargs []) \<noteq> MetaOf (Meta PNone)
   \<and> metadata TestEnumA [PInt 3] = Inr (MetaOf (Meta (PStr ''cmeta'')))"
  by code_simp

section \<open>Merging the registries of the base classes\<close>

lemma map_of_dict_setitem: "map_of (dict_setitem d k v) = (map_of d)(k \<mapsto> v)"
  by (induction d) (auto simp: fun_eq_iff)

lemma dict_setitem_same: "map_of d k = Some v \<Longrightarrow> dict_setitem d k v = d"
  by (induction d) (auto split: if_splits)

lemma dict_setitem_new: "k \<notin> fst ` set d \<Longrightarrow> dict_setitem d k v = d @ [(k, v)]"
  by (induction d) auto

lemma map_of_dict_update: "map_of (dict_update d b) = map_of d ++ map_of (rev b)"
proof (induction b arbitrary: d)
  case Nil
  then show ?case by simp
next
  case (Cons p b)
  obtain k v where p: "p = (k, v)" by (cases p)
  have "map_of (dict_update (dict_setitem d k v) b) = (map_of d)(k \<mapsto> v) ++ map_of (rev b)"
    by (simp only: Cons.IH map_of_dict_setitem)
  also have "\<dots> = map_of d ++ ([k \<mapsto> v] ++ map_of (rev b))"
    by (simp add: fun_eq_iff map_add_def split: option.splits)
  finally show ?case by (simp add: p)
qed

lemma dict_update_noop: "(\<forall>(k, v) \<in> set b. map_of d k = Some v) \<Longrightarrow> dict_update d b = d"
proof (induction b)
  case Nil
  then show ?case by simp
next
  case (Cons p b)
  obtain k v where p: "p = (k, v)" by (cases p)
  from Cons.prems p have "map_of d k = Some v" by simp
  then have "dict_setitem d k v = d" by (rule dict_setitem_same)
  moreover from Cons have "dict_update d b = d" by simp
  ultimately show ?case by (simp add: p)
qed

lemma dict_update_append: "distinct (map fst (d @ b)) \<Longrightarrow> dict_update d b = d @ b"
proof (induction b arbitrary: d)
  case Nil
  then show ?case by simp
next
  case (Cons p b)
  obtain k v where p: "p = (k, v)" by (cases p)
  from Cons.prems p have new: "k \<notin> fst ` set d" by auto
  from Cons.prems p have "distinct (map fst ((d @ [(k, v)]) @ b))" by auto
  then have "dict_update (d @ [(k, v)]) b = (d @ [(k, v)]) @ b" by (rule Cons.IH)
  then show ?case using p new by (simp add: dict_setitem_new)
qed

lemma check_base_Cons_None:
  "(check_base False d ((k, v) # rest) = None) =
     ((\<forall>found. map_of d k = Some found \<longrightarrow>
          item_key found = item_key v \<and> item_value found = item_value v)
      \<and> check_base False d rest = None)"
proof (cases "map_of d k")
  case None
  then show ?thesis by (simp add: dict_get_def)
next
  case (Some found)
  then show ?thesis by (cases "check_base False d rest") (simp_all add: dict_get_def)
qed

lemma check_base_None_iff:
  "(check_base False d b = None) =
   (\<forall>(k, v) \<in> set b. \<forall>found. map_of d k = Some found \<longrightarrow>
       item_key found = item_key v \<and> item_value found = item_value v)"
proof (induction b)
  case Nil
  then show ?case by simp
next
  case (Cons p b)
  obtain k v where p: "p = (k, v)" by (cases p)
  show ?case unfolding p check_base_Cons_None Cons.IH by simp
qed

lemma check_base_nonunique: "check_base True d b = None"
  by (induction b) auto

lemma check_base_self:
  assumes "distinct (map fst b)"
  shows "check_base False b b = None"
proof -
  have "found = v" if "(k, v) \<in> set b" and "map_of b k = Some found" for k v found
    using assms that by simp
  then show ?thesis unfolding check_base_None_iff by blast
qed

lemma merge_base_raises_iff:
  "(\<exists>e. merge_base False d b = Inl e) \<longleftrightarrow>
      (\<exists>(k, v) \<in> set b. \<exists>found. map_of d k = Some found \<and>
          (item_key found \<noteq> item_key v \<or> item_value found \<noteq> item_value v))"
proof (cases "check_base False d b")
  case None
  then have "\<forall>(k, v) \<in> set b. \<forall>found. map_of d k = Some found \<longrightarrow>
       item_key found = item_key v \<and> item_value found = item_value v"
    by (simp only: check_base_None_iff)
  then have "\<not> (\<exists>(k, v) \<in> set b. \<exists>found. map_of d k = Some found \<and>
          (item_key found \<noteq> item_key v \<or> item_value found \<noteq> item_value v))"
    by blast
  then show ?thesis using None by (simp add: merge_base_def)
next
  case (Some e)
  then have "\<not> (\<forall>(k, v) \<in> set b. \<forall>found. map_of d k = Some found \<longrightarrow>
       item_key found = item_key v \<and> item_value found = item_value v)"
    using check_base_None_iff [of d b] by simp
  then have "\<exists>(k, v) \<in> set b. \<exists>found. map_of d k = Some found \<and>
          (item_key found \<noteq> item_key v \<or> item_value found \<noteq> item_value v)"
    by blast
  then show ?thesis using Some by (simp add: merge_base_def)
qed

lemma merge_base_identical:
  assumes same: "\<forall>(k, v) \<in> set b. map_of d k = Some v"
  shows "merge_base False d b = Inr d"
proof -
  have "check_base False d b = None"
    unfolding check_base_None_iff using same by fastforce
  then show ?thesis using same by (simp add: merge_base_def dict_update_noop)
qed

lemma map_of_rev_distinct: "distinct (map fst b) \<Longrightarrow> map_of (rev b) = map_of b"
  by (subst map_of_inject_set) (simp_all add: rev_map [symmetric])

lemma merge_base_result:
  assumes "distinct (map fst b)" and "merge_base nu d b = Inr d'"
  shows "map_of d' = map_of d ++ map_of b"
proof -
  from assms(2) have "d' = dict_update d b"
    by (auto simp: merge_base_def split: option.splits)
  then show ?thesis using assms(1) by (simp add: map_of_dict_update map_of_rev_distinct)
qed

lemma merge_bases_diamond:
  assumes dist: "distinct (map fst b)"
  shows "merge_bases False [] [Some b, Some b] = Inr b"
proof -
  have "dict_update [] b = b" using dist dict_update_append [of "[]" b] by simp
  moreover have "dict_update b b = b"
  proof (rule dict_update_noop)
    show "\<forall>(k, v) \<in> set b. map_of b k = Some v" using dist by auto
  qed
  moreover have "check_base False [] b = None" by (simp add: check_base_None_iff)
  ultimately show ?thesis
    using check_base_self [OF dist] by (simp add: merge_base_def)
qed

text \<open>
  Claim C1, as the code has it. Merging the registry \<open>b\<close> of a base class into the
  accumulator \<open>d\<close> (without \<^verbatim>\<open>NonUniqueEnum\<close>) raises exactly when some key of \<open>b\<close> is
  already in \<open>d\<close> with an entry whose \<^verbatim>\<open>key\<close> or \<^verbatim>\<open>value\<close> differs from the incoming
  one; the names are not compared. When every entry of \<open>b\<close> is already in \<open>d\<close> the merge
  changes nothing; otherwise the entries of \<open>b\<close> replace those of \<open>d\<close> under their keys.
  Inheriting one registry twice, as in a diamond, succeeds and gives that registry.
\<close>

theorem merge_base_raises_iff_key_or_value_differs:
  "((\<exists>e. merge_base False d b = Inl e) \<longleftrightarrow>
      (\<exists>(k, v) \<in> set b. \<exists>found. map_of d k = Some found \<and>
          (item_key found \<noteq> item_key v \<or> item_value found \<noteq> item_value v)))
   \<and> ((\<forall>(k, v) \<in> set b. map_of d k = Some v) \<longrightarrow> merge_base False d b = Inr d)
   \<and> (distinct (map fst b) \<and> merge_base False d b = Inr d' \<longrightarrow> map_of d' = map_of d ++ map_of b)
   \<and> (distinct (map fst b) \<longrightarrow> merge_bases False [] [Some b, Some b] = Inr b)"
  using merge_base_raises_iff [of d b] merge_base_identical [of b d]
    merge_base_result [of b False d d'] merge_bases_diamond [of b]
  by blast

theorem merge_base_raises_iff_key_or_value_differs_witness:
  "merge_base False TestEnumA TestEnumA = Inr TestEnumA
   \<and> merge_bases False [] [Some TestEnumA, Some TestEnumA] = Inr TestEnumA
   \<and> (\<exists>e. merge_base False [(PInt 1, one_X)] [(PInt 1, uno_X)] = Inl e)
   \<and> \<not> (\<exists>e. merge_base False [(PInt 1, one_X)] [(PInt 1, one_Y)] = Inl e)"
  using merge_base_raises_iff_key_or_value_differs [of TestEnumA TestEnumA]
    merge_base_raises_iff_key_or_value_differs [of "[(PInt 1, one_X)]" "[(PInt 1, uno_X)]"]
    merge_base_raises_iff_key_or_value_differs [of "[(PInt 1, one_X)]" "[(PInt 1, one_Y)]"]
  by (simp add: TestEnumA_def one_X_def one_Y_def uno_X_def)

text \<open>
  Claim C1 as stated fails: the classes \<^verbatim>\<open>P\<close> with \<^verbatim>\<open>X = (1, 'one')\<close> and \<^verbatim>\<open>Q\<close> with
  \<^verbatim>\<open>Y = (1, 'one')\<close> bind key \<^verbatim>\<open>1\<close> to entries whose (name, value) pairs differ, and
  \<^verbatim>\<open>class R(P, Q): pass\<close> is built without an error; its entry for \<^verbatim>\<open>1\<close> is the one
  named \<^verbatim>\<open>Y\<close>.
\<close>

theorem merge_accepts_different_names:
  "MetaEnum_init False ''P'' [Some []] [(''X'', Data (Seq [PInt 1, PStr ''one'']))] = Inr [(PInt 1, one_X)]
   \<and> MetaEnum_init False ''Q'' [Some []] [(''Y'', Data (Seq [PInt 1, PStr ''one'']))] = Inr [(PInt 1, one_Y)]
   \<and> (item_name one_X, item_value one_X) \<noteq> (item_name one_Y, item_value one_Y)
   \<and> merge_base False [(PInt 1, one_X)] [(PInt 1, one_Y)] = Inr [(PInt 1, one_Y)]
   \<and> MetaEnum_init False ''R'' [Some [(PInt 1, one_X)], Some [(PInt 1, one_Y)]] [] = Inr [(PInt 1, one_Y)]"
  by code_simp

section \<open>The sorted listing\<close>







section \<open>Attributes of the class body\<close>











end
